theory Spec2Isabelle
  imports Complex_Main "HOL-Library.Sublist" "HOL-Library.AList"
    "HOL-Library.Char_ord" "HOL-Library.List_Lexorder"
begin

section \<open>Python strings\<close>

text \<open>
  The backend (\<^verbatim>\<open>backend/app.py\<close>) works on Python \<^verbatim>\<open>str\<close> values. They are modelled
  as \<^typ>\<open>string\<close>, restricted to ASCII text: case mapping touches the letters
  \<^verbatim>\<open>A-Z\<close> / \<^verbatim>\<open>a-z\<close> only, and white space is what \<^verbatim>\<open>str.isspace\<close> accepts below
  code point 128 (tab, line feed, vertical tab, form feed, carriage return, the four
  separators \<^verbatim>\<open>0x1c-0x1f\<close> and the blank).
\<close>

definition ascii_uppercase :: string where
  "ascii_uppercase = ''ABCDEFGHIJKLMNOPQRSTUVWXYZ''"

definition ascii_lowercase :: string where
  "ascii_lowercase = ''abcdefghijklmnopqrstuvwxyz''"

definition lower_char :: "char \<Rightarrow> char" where
  "lower_char c = (case map_of (zip ascii_uppercase ascii_lowercase) c of
                     None \<Rightarrow> c | Some d \<Rightarrow> d)"

definition upper_char :: "char \<Rightarrow> char" where
  "upper_char c = (case map_of (zip ascii_lowercase ascii_uppercase) c of
                     None \<Rightarrow> c | Some d \<Rightarrow> d)"

text \<open>\<^verbatim>\<open>s.lower()\<close> and \<^verbatim>\<open>s.upper()\<close>.\<close>

definition py_lower :: "string \<Rightarrow> string" where
  "py_lower s = map lower_char s"

definition py_upper :: "string \<Rightarrow> string" where
  "py_upper s = map upper_char s"

definition py_isspace :: "char \<Rightarrow> bool" where
  "py_isspace c = (let n = (of_char c :: nat) in (9 \<le> n \<and> n \<le> 13) \<or> (28 \<le> n \<and> n \<le> 32))"

text \<open>
  \<^verbatim>\<open>s.split()\<close> with no argument: the maximal runs of characters that are not white
  space, in order; never an empty word. \<open>split_from w s\<close> scans \<open>s\<close> with the word
  \<open>w\<close> read so far.
\<close>

fun split_from :: "string \<Rightarrow> string \<Rightarrow> string list" where
  "split_from w [] = (if w = [] then [] else [w])"
| "split_from w (c # cs) =
     (if py_isspace c then (if w = [] then split_from [] cs else w # split_from [] cs)
      else split_from (w @ [c]) cs)"

definition py_split :: "string \<Rightarrow> string list" where
  "py_split s = split_from [] s"

text \<open>\<^verbatim>\<open>s.strip()\<close>: white space removed at both ends.\<close>

definition py_strip :: "string \<Rightarrow> string" where
  "py_strip s = rev (dropWhile py_isspace (rev (dropWhile py_isspace s)))"

text \<open>\<^verbatim>\<open>sub in s\<close> on strings: \<open>sub\<close> occurs in \<open>s\<close> as a contiguous block.\<close>

fun py_in :: "string \<Rightarrow> string \<Rightarrow> bool" where
  "py_in sub [] = (sub = [])"
| "py_in sub (c # cs) = (if prefix sub (c # cs) then True else py_in sub cs)"

text \<open>\<^verbatim>\<open>any(word in s for word in words)\<close>.\<close>

definition any_word_in :: "string list \<Rightarrow> string \<Rightarrow> bool" where
  "any_word_in ws s = list_ex (\<lambda>w. py_in w s) ws"

section \<open>Python dictionaries and exceptions\<close>

text \<open>
  A \<^verbatim>\<open>dict\<close> keeps its keys in insertion order, so it is an association list with
  distinct keys: \<^const>\<open>AList.update\<close> is the assignment \<^verbatim>\<open>d[k] = v\<close> (a new key goes to
  the end, an old one keeps its place), \<open>dict_item\<close> is the subscript \<^verbatim>\<open>d[k]\<close>, which
  raises \<^verbatim>\<open>KeyError\<close> on a missing key.
\<close>

datatype py_error =
    KeyError string
  | TypeError
  | ZeroDivisionError
  | ServiceUnavailable
  | GenerationError string

type_synonym 'a dict = "(string \<times> 'a) list"

definition dict_item :: "'a dict \<Rightarrow> string \<Rightarrow> py_error + 'a" where
  "dict_item d k = (case map_of d k of None \<Rightarrow> Inl (KeyError k) | Some v \<Rightarrow> Inr v)"

text \<open>Sequencing of two steps the first of which may raise.\<close>

definition and_then :: "py_error + 'a \<Rightarrow> ('a \<Rightarrow> py_error + 'b) \<Rightarrow> py_error + 'b" where
  "and_then r f = (case r of Inl e \<Rightarrow> Inl e | Inr v \<Rightarrow> f v)"

section \<open>The quality scorer\<close>

text \<open>
  \<^verbatim>\<open>round(x, 1)\<close>. The score is a Python float; the model computes it in exact rational
  arithmetic and rounds to the nearest tenth, a tie going to the even tenth.
\<close>

definition round_half_even :: "rat \<Rightarrow> int" where
  "round_half_even x =
     (let f = \<lfloor>x\<rfloor>; d = x - of_int f
      in if d < 1 / 2 then f else if 1 / 2 < d then f + 1 else if even f then f else f + 1)"

definition py_round1 :: "rat \<Rightarrow> rat" where
  "py_round1 x = of_int (round_half_even (x * 10)) / 10"

record quality_report =
  quality_score :: rat
  indicators :: "bool dict"
  word_count :: nat
  recommendations :: "string list"

text \<open>The seven indicators every prompt gets, in the order the source inserts them.\<close>

definition base_indicators :: "string \<Rightarrow> bool dict" where
  "base_indicators prompt =
     (let low = py_lower prompt; n = length (py_split prompt) in
      [(''specificity'',
          any_word_in [''specific'', ''detailed'', ''exact'', ''precise'', ''concrete''] low),
       (''structure'',
          any_word_in [''format'', ''structure'', ''section'', ''outline'', ''template''] low),
       (''constraints'',
          any_word_in [''must'', ''should'', ''require'', ''constraint'', ''limit''] low),
       (''examples'', py_in ''example'' low \<or> py_in ''for instance'' low),
       (''tone_appropriate'',
          any_word_in [''professional'', ''formal'', ''academic'', ''technical''] low),
       (''has_objective'',
          20 < n \<and> any_word_in [''objective'', ''goal'', ''purpose'', ''aim''] low),
       (''appropriate_length'', 50 \<le> n \<and> n \<le> 500)])"

text \<open>The type-specific check: one more key for an image, video or code prompt.\<close>

definition quality_indicators :: "string \<Rightarrow> string \<Rightarrow> bool dict" where
  "quality_indicators prompt prompt_type =
     (let low = py_lower prompt; d = base_indicators prompt in
      if prompt_type = ''image'' then
        AList.update ''visual_elements''
          (any_word_in [''lighting'', ''composition'', ''style'', ''angle'', ''resolution''] low) d
      else if prompt_type = ''video'' then
        AList.update ''temporal_elements''
          (any_word_in [''movement'', ''sequence'', ''timing'', ''duration'', ''pace''] low) d
      else if prompt_type = ''code'' then
        AList.update ''technical_specs''
          (any_word_in [''function'', ''input'', ''output'', ''test'', ''error''] low) d
      else d)"

definition advice_specificity :: string where
  "advice_specificity = ''Add more specific details and concrete requirements''"

definition advice_structure :: string where
  "advice_structure = ''Consider adding a clear structure or format specification''"

definition advice_constraints :: string where
  "advice_constraints = ''Define constraints or limitations to guide the AI''"

definition advice_examples :: string where
  "advice_examples = ''Include examples to clarify expected output''"

definition advice_visual :: string where
  "advice_visual = ''Add more visual details like lighting, composition, or style''"

definition advice_temporal :: string where
  "advice_temporal = ''Include temporal elements like pacing, sequencing, or duration''"

text \<open>
  \<^verbatim>\<open>generate_recommendations(indicators, prompt_type)\<close>. The four subscripts of the
  first four tests are always evaluated; \<^verbatim>\<open>indicators["visual_elements"]\<close> and
  \<^verbatim>\<open>indicators["temporal_elements"]\<close> only behind their \<^verbatim>\<open>prompt_type == ...\<close> test.
\<close>

definition generate_recommendations :: "bool dict \<Rightarrow> string \<Rightarrow> py_error + string list" where
  "generate_recommendations d prompt_type =
     and_then (dict_item d ''specificity'') (\<lambda>specificity.
     and_then (dict_item d ''structure'') (\<lambda>structure.
     and_then (dict_item d ''constraints'') (\<lambda>constraints.
     and_then (dict_item d ''examples'') (\<lambda>examples.
     and_then (if prompt_type = ''image'' then dict_item d ''visual_elements'' else Inr True)
       (\<lambda>visual_elements.
     and_then (if prompt_type = ''video'' then dict_item d ''temporal_elements'' else Inr True)
       (\<lambda>temporal_elements.
     Inr ((if specificity then [] else [advice_specificity]) @
          (if structure then [] else [advice_structure]) @
          (if constraints then [] else [advice_constraints]) @
          (if examples then []
           else if prompt_type \<in> set [''text'', ''code'', ''data''] then [advice_examples]
           else []) @
          (if prompt_type = ''image'' then (if visual_elements then [] else [advice_visual])
           else []) @
          (if prompt_type = ''video'' then (if temporal_elements then [] else [advice_temporal])
           else []))))))))"

text \<open>
  \<^verbatim>\<open>analyze_prompt_quality(prompt, prompt_type)\<close>. \<^verbatim>\<open>sum(quality_indicators.values())\<close>
  counts the true flags, \<^verbatim>\<open>len(quality_indicators)\<close> all of them; the division raises
  on an empty dictionary.
\<close>

definition analyze_prompt_quality :: "string \<Rightarrow> string \<Rightarrow> py_error + quality_report" where
  "analyze_prompt_quality prompt prompt_type =
     (let n = length (py_split prompt);
          d = quality_indicators prompt prompt_type;
          score = length (filter snd d);
          max_score = length d
      in if max_score = 0 then Inl ZeroDivisionError
         else and_then (generate_recommendations d prompt_type) (\<lambda>recs.
                Inr \<lparr>quality_score = py_round1 (of_nat score / of_nat max_score * 100),
                     indicators = d,
                     word_count = n,
                     recommendations = recs\<rparr>))"

section \<open>The fallback prompt\<close>

definition templates :: "string dict" where
  "templates =
   [(''text'', ''OBJECTIVE: Clearly define the primary goal\<newline>CONTEXT: Provide necessary background\<newline>FORMAT: Specify output structure\<newline>KEY REQUIREMENTS: List essential elements\<newline>TONE: Define appropriate tone\<newline>CONSTRAINTS: Set clear limitations\<newline>EXPECTED OUTPUT: Describe what success looks like''),
    (''image'', ''SUBJECT: Main focus of the image\<newline>ACTION: What's happening\<newline>ENVIRONMENT: Where it takes place\<newline>STYLE: Artistic approach\<newline>LIGHTING: Lighting conditions\<newline>COMPOSITION: Framing and angle\<newline>MOOD: Emotional atmosphere\<newline>TECHNICAL: Resolution and quality''),
    (''video'', ''SCENE: Main visual sequence\<newline>MOVEMENT: Camera and subject motion\<newline>STYLE: Cinematic approach\<newline>PACING: Timing and rhythm\<newline>AUDIO: Sound elements\<newline>LENGTH: Duration\<newline>ASPECT RATIO: Frame dimensions''),
    (''code'', ''FUNCTION: What the code should do\<newline>INPUT: Required inputs\<newline>OUTPUT: Expected outputs\<newline>CONSTRAINTS: Technical limitations\<newline>ERROR HANDLING: How to handle issues\<newline>TESTING: Verification requirements\<newline>DOCUMENTATION: Code documentation needs'')]"

text \<open>
  \<^verbatim>\<open>generate_fallback_prompt(user_input, prompt_type)\<close>: the header line, a blank line,
  and \<^verbatim>\<open>templates.get(prompt_type, templates["text"])\<close>.
\<close>

definition base_prompt :: "string \<Rightarrow> string \<Rightarrow> string" where
  "base_prompt user_input prompt_type =
     ''Professional '' @ py_upper prompt_type @ '' Prompt for: '' @ user_input @ ''\<newline>\<newline>''"

definition generate_fallback_prompt :: "string \<Rightarrow> string \<Rightarrow> py_error + string" where
  "generate_fallback_prompt user_input prompt_type =
     and_then (dict_item templates ''text'') (\<lambda>dflt.
       Inr (base_prompt user_input prompt_type @
            (case map_of templates prompt_type of None \<Rightarrow> dflt | Some body \<Rightarrow> body)))"

section \<open>Dates\<close>

text \<open>
  \<^verbatim>\<open>datetime.now()\<close> is a parameter of the model: a calendar date and the time of day
  (in microseconds). \<open>isoformat\<close> is \<^verbatim>\<open>date.isoformat()\<close>, the text \<^verbatim>\<open>YYYY-MM-DD\<close>.
\<close>

record py_date =
  year :: nat
  month :: nat
  day :: nat

record py_datetime =
  date :: py_date
  time_of_day :: nat

definition valid_date :: "py_date \<Rightarrow> bool" where
  "valid_date d = (1 \<le> year d \<and> year d \<le> 9999 \<and> 1 \<le> month d \<and> month d \<le> 12 \<and>
                   1 \<le> day d \<and> day d \<le> 31)"

definition date_less :: "py_date \<Rightarrow> py_date \<Rightarrow> bool" where
  "date_less a b = (year a < year b \<or> (year a = year b \<and>
                     (month a < month b \<or> (month a = month b \<and> day a < day b))))"

definition datetime_le :: "py_datetime \<Rightarrow> py_datetime \<Rightarrow> bool" where
  "datetime_le a b = (date_less (date a) (date b) \<or>
                      (date a = date b \<and> time_of_day a \<le> time_of_day b))"

definition digit :: "nat \<Rightarrow> char" where
  "digit n = ''0123456789'' ! (n mod 10)"

definition zero_pad2 :: "nat \<Rightarrow> string" where
  "zero_pad2 n = [digit (n div 10), digit n]"

definition zero_pad4 :: "nat \<Rightarrow> string" where
  "zero_pad4 n = [digit (n div 1000), digit (n div 100), digit (n div 10), digit n]"

definition isoformat :: "py_date \<Rightarrow> string" where
  "isoformat d = zero_pad4 (year d) @ ''-'' @ zero_pad2 (month d) @ ''-'' @ zero_pad2 (day d)"

section \<open>The document store\<close>

text \<open>
  A Firestore document is a dictionary from field names to values; the values are of the
  kinds this backend writes: integers, strings, time stamps, and the null value. The
  store holds the collection \<^verbatim>\<open>users\<close> (keyed by uid) and the collection \<^verbatim>\<open>prompts\<close>
  (documents with generated ids: the position in the list stands for the id).
\<close>

datatype fval = IntV int | StrV string | TimeV py_datetime | NoneV

type_synonym document = "string \<rightharpoonup> fval"

record metadata =
  meta_type :: string
  meta_complexity :: string
  meta_quality_score :: rat
  model_used :: string
  timestamp :: py_datetime

record prompt_data =
  doc_user_id :: string
  doc_original_prompt :: string
  doc_enhanced_prompt :: string
  doc_prompt_type :: string
  doc_metadata :: metadata
  doc_created_at :: py_datetime
  doc_updated_at :: py_datetime
  doc_word_count :: nat
  doc_character_count :: nat

record firestore =
  users :: "string \<rightharpoonup> document"
  prompts :: "prompt_data list"

text \<open>
  What a request handler finds around it: whether the Firebase client was initialised at
  start-up (\<^verbatim>\<open>firebase_initialized and db\<close>: the two are set together), whether the store
  answers (a call to a store that does not answer raises), the clock, and the generative
  model, which returns a text or raises.
\<close>

record env =
  firebase_initialized :: bool
  store_reachable :: bool
  now :: py_datetime
  model_generate_content :: "string \<Rightarrow> py_error + string"

text \<open>\<^verbatim>\<open>db.collection('users').document(user_id).get()\<close>: the document, or \<open>None\<close> when
  \<^verbatim>\<open>doc.exists\<close> is false.\<close>

definition users_get :: "env \<Rightarrow> firestore \<Rightarrow> string \<Rightarrow> py_error + document option" where
  "users_get e db uid = (if store_reachable e then Inr (users db uid) else Inl ServiceUnavailable)"

text \<open>\<^verbatim>\<open>user_ref.set(current_data, merge=True)\<close>: the fields given overwrite the stored
  ones, every other stored field stays.\<close>

definition users_set_merge :: "env \<Rightarrow> firestore \<Rightarrow> string \<Rightarrow> document \<Rightarrow> py_error + firestore" where
  "users_set_merge e db uid current_data =
     (if store_reachable e then
        Inr (db\<lparr>users := (users db)(uid \<mapsto>
               (case users db uid of None \<Rightarrow> current_data | Some old \<Rightarrow> old ++ current_data))\<rparr>)
      else Inl ServiceUnavailable)"

text \<open>\<^verbatim>\<open>d.get(k, default)\<close>, \<^verbatim>\<open>v + 1\<close> and \<^verbatim>\<open>a >= b\<close> on stored values.\<close>

definition get_default :: "document \<Rightarrow> string \<Rightarrow> fval \<Rightarrow> fval" where
  "get_default d k dflt = (case d k of None \<Rightarrow> dflt | Some v \<Rightarrow> v)"

fun py_plus1 :: "fval \<Rightarrow> py_error + fval" where
  "py_plus1 (IntV n) = Inr (IntV (n + 1))"
| "py_plus1 v = Inl TypeError"

fun py_ge :: "fval \<Rightarrow> fval \<Rightarrow> py_error + bool" where
  "py_ge (IntV a) (IntV b) = Inr (b \<le> a)"
| "py_ge (StrV a) (StrV b) = Inr (b \<le> a)"
| "py_ge (TimeV a) (TimeV b) = Inr (datetime_le b a)"
| "py_ge a b = Inl TypeError"

section \<open>Usage statistics\<close>

text \<open>The counter of a user with no document yet (lines 148-153).\<close>

definition default_stats :: "py_datetime \<Rightarrow> document" where
  "default_stats t = [''total_prompts'' \<mapsto> IntV 0, ''prompts_today'' \<mapsto> IntV 0,
                      ''last_reset_date'' \<mapsto> StrV (isoformat (date t)),
                      ''created_at'' \<mapsto> TimeV t]"

text \<open>"Reset daily count if new day" (lines 155-159): \<open>today\<close> is the ISO text of the
  current date.\<close>

definition reset_if_new_day :: "string \<Rightarrow> document \<Rightarrow> document" where
  "reset_if_new_day today current_data =
     (if current_data ''last_reset_date'' \<noteq> Some (StrV today)
      then current_data(''prompts_today'' \<mapsto> IntV 0, ''last_reset_date'' \<mapsto> StrV today)
      else current_data)"

text \<open>The computation between the read and the write of \<^verbatim>\<open>update_prompt_usage_stats\<close>
  (lines 148-164), at time \<open>t\<close>, on the document read.\<close>

definition count_usage :: "py_datetime \<Rightarrow> document option \<Rightarrow> py_error + document" where
  "count_usage t doc =
     (let current_data = (case doc of None \<Rightarrow> default_stats t | Some d \<Rightarrow> d);
          current_data = reset_if_new_day (isoformat (date t)) current_data
      in and_then (py_plus1 (get_default current_data ''total_prompts'' (IntV 0))) (\<lambda>total.
         let current_data = current_data(''total_prompts'' \<mapsto> total)
         in and_then (py_plus1 (get_default current_data ''prompts_today'' (IntV 0))) (\<lambda>today_count.
            Inr (current_data(''prompts_today'' \<mapsto> today_count, ''updated_at'' \<mapsto> TimeV t)))))"

text \<open>\<^verbatim>\<open>update_prompt_usage_stats(user_id)\<close>, run without interruption. Every exception is
  caught and printed, so the store then stays as it was.\<close>

definition update_prompt_usage_stats :: "env \<Rightarrow> firestore \<Rightarrow> string \<Rightarrow> firestore" where
  "update_prompt_usage_stats e db uid =
     (if firebase_initialized e then
        (case and_then (users_get e db uid) (\<lambda>doc.
              and_then (count_usage (now e) doc) (\<lambda>current_data.
              users_set_merge e db uid current_data)) of
           Inl err \<Rightarrow> db
         | Inr db' \<Rightarrow> db')
      else db)"

text \<open>\<^verbatim>\<open>save_prompt_to_firestore\<close>: the id of the new document, or \<open>None\<close>.\<close>

definition save_prompt_to_firestore ::
  "env \<Rightarrow> firestore \<Rightarrow> string \<Rightarrow> string \<Rightarrow> string \<Rightarrow> string \<Rightarrow> metadata \<Rightarrow> nat option \<times> firestore" where
  "save_prompt_to_firestore e db uid original enhanced ptype meta =
     (if firebase_initialized e then
        (if store_reachable e then
           (Some (length (prompts db)),
            db\<lparr>prompts := prompts db @
              [\<lparr>doc_user_id = uid, doc_original_prompt = original,
                doc_enhanced_prompt = enhanced, doc_prompt_type = ptype,
                doc_metadata = meta, doc_created_at = now e, doc_updated_at = now e,
                doc_word_count = length (py_split enhanced),
                doc_character_count = length enhanced\<rparr>]\<rparr>)
         else (None, db))
      else (None, db))"

text \<open>
  Concurrent calls. \<^verbatim>\<open>update_prompt_usage_stats\<close> awaits twice, at the read and at the
  write; the event loop may run other handlers at either point. A call in flight is
  before its read, between its read and its write (holding the \<^verbatim>\<open>current_data\<close> it
  computed), or done. A schedule is the order in which the calls take their steps, with
  the time of each step.
\<close>

datatype task = Before_read | Before_write document | Done

fun task_step :: "env \<Rightarrow> string \<Rightarrow> firestore \<times> task \<Rightarrow> firestore \<times> task" where
  "task_step e uid (db, Before_read) =
     (if firebase_initialized e then
        (case and_then (users_get e db uid) (count_usage (now e)) of
           Inl err \<Rightarrow> (db, Done)
         | Inr current_data \<Rightarrow> (db, Before_write current_data))
      else (db, Done))"
| "task_step e uid (db, Before_write current_data) =
     (case users_set_merge e db uid current_data of
        Inl err \<Rightarrow> (db, Done)
      | Inr db' \<Rightarrow> (db', Done))"
| "task_step e uid (db, Done) = (db, Done)"



section \<open>The route \<^verbatim>\<open>/generate\<close>\<close>

record request =
  req_user :: "string option"
  req_prompt :: "string option"
  req_type :: "string option"
  req_complexity :: "string option"

record success =
  professional_prompt :: string
  success_type :: string
  success_complexity :: string
  quality_metrics :: quality_report
  success_word_count :: nat
  success_character_count :: nat
  prompt_id :: "nat option"
  authenticated :: bool

datatype body =
    Error_body string
  | Limit_body fval fval
  | Success_body success
  | Fallback_body py_error string

record response =
  status :: nat
  body :: body

text \<open>
  "Check rate limiting for authenticated users" (lines 321-342). \<open>usr\<close> is the uid of
  the verified token, if the request carried one. The result is the refusal (limit,
  used) or \<open>None\<close>; the check stands before the handler's \<^verbatim>\<open>try\<close>, so what it raises
  leaves the handler.
\<close>

definition check_rate_limit :: "env \<Rightarrow> firestore \<Rightarrow> string option \<Rightarrow> py_error + (fval \<times> fval) option" where
  "check_rate_limit e db usr =
     (case usr of
        None \<Rightarrow> Inr None
      | Some uid \<Rightarrow>
          if firebase_initialized e then
            and_then (users_get e db uid) (\<lambda>user_doc.
              case user_doc of
                None \<Rightarrow> Inr None
              | Some user_data \<Rightarrow>
                  (let daily_limit = get_default user_data ''daily_limit'' (IntV 100);
                       prompts_today = get_default user_data ''prompts_today'' (IntV 0)
                   in and_then (py_ge prompts_today daily_limit) (\<lambda>reached.
                        Inr (if reached then Some (daily_limit, prompts_today) else None))))
          else Inr None)"

definition enhancement_context :: "string \<Rightarrow> string \<Rightarrow> string \<Rightarrow> string" where
  "enhancement_context user_input ptype cplx =
     ''\<newline>    ENHANCEMENT REQUEST:\<newline>    User Input: '' @ [CHR 0x22] @ user_input @ [CHR 0x22] @
     ''\<newline>    Prompt Type: '' @ py_upper ptype @
     ''\<newline>    Desired Complexity: '' @ py_upper cplx @
     ''\<newline>    \<newline>    Please apply the appropriate enhancement framework for '' @ ptype @
     '' prompts.\<newline>    ''"

definition type_specific_instruction :: "string \<Rightarrow> string" where
  "type_specific_instruction ptype =
     (if ptype = ''image'' then '' Focus on visual details, composition, and artistic elements.''
      else if ptype = ''video'' then '' Emphasize movement, sequencing, and cinematic techniques.''
      else if ptype = ''code'' then '' Include specific requirements, edge cases, and testing scenarios.''
      else [])"

definition full_input :: "string \<Rightarrow> string \<Rightarrow> string \<Rightarrow> string" where
  "full_input user_input ptype cplx =
     enhancement_context user_input ptype cplx @ type_specific_instruction ptype @
     ''\<newline>\<newline>Enhanced Professional Prompt:''"

text \<open>
  The \<^verbatim>\<open>try\<close> block of the handler (lines 354-415): the call of the model, the scoring,
  and for an authenticated user the saving and the counting; on any exception the
  handler answers with the fallback prompt.
\<close>

definition enhance ::
  "env \<Rightarrow> firestore \<Rightarrow> string option \<Rightarrow> string \<Rightarrow> string \<Rightarrow> string \<Rightarrow> py_error + response \<times> firestore" where
  "enhance e db usr user_input ptype cplx =
     (case and_then (model_generate_content e (full_input user_input ptype cplx)) (\<lambda>answer.
           and_then (analyze_prompt_quality (py_strip answer) ptype) (\<lambda>metrics.
           Inr (py_strip answer, metrics))) of
        Inl err \<Rightarrow>
          and_then (generate_fallback_prompt user_input ptype) (\<lambda>fallback.
            Inr (\<lparr>status = 500, body = Fallback_body err fallback\<rparr>, db))
      | Inr (enhanced, metrics) \<Rightarrow>
          (let meta = \<lparr>meta_type = ptype, meta_complexity = cplx,
                       meta_quality_score = quality_score metrics,
                       model_used = ''gemini-1.5-flash'', timestamp = now e\<rparr>;
               (pid, db1) = (case usr of
                               None \<Rightarrow> (None, db)
                             | Some uid \<Rightarrow>
                                 save_prompt_to_firestore e db uid user_input enhanced ptype meta);
               db2 = (case usr of None \<Rightarrow> db1 | Some uid \<Rightarrow> update_prompt_usage_stats e db1 uid)
           in Inr (\<lparr>status = 200,
                    body = Success_body
                      \<lparr>professional_prompt = enhanced, success_type = ptype,
                       success_complexity = cplx, quality_metrics = metrics,
                       success_word_count = length (py_split enhanced),
                       success_character_count = length enhanced,
                       prompt_id = pid, authenticated = (usr \<noteq> None)\<rparr>\<rparr>, db2)))"

text \<open>The three fields read from the request body (lines 314-316):
  \<^verbatim>\<open>data.get("prompt", "").strip()\<close>, \<^verbatim>\<open>data.get("type", "text").lower()\<close> and
  \<^verbatim>\<open>data.get("complexity", "detailed")\<close>.\<close>

definition user_input_of :: "request \<Rightarrow> string" where
  "user_input_of req = py_strip (case req_prompt req of None \<Rightarrow> [] | Some s \<Rightarrow> s)"

definition prompt_type_of :: "request \<Rightarrow> string" where
  "prompt_type_of req = py_lower (case req_type req of None \<Rightarrow> ''text'' | Some s \<Rightarrow> s)"

definition complexity_of :: "request \<Rightarrow> string" where
  "complexity_of req = (case req_complexity req of None \<Rightarrow> ''detailed'' | Some s \<Rightarrow> s)"

text \<open>The handler \<^verbatim>\<open>generate()\<close>: the answer and the store after it, or the exception
  that leaves the handler.\<close>

definition generate :: "env \<Rightarrow> firestore \<Rightarrow> request \<Rightarrow> py_error + response \<times> firestore" where
  "generate e db req =
     (let user_input = user_input_of req;
          ptype = prompt_type_of req;
          cplx = complexity_of req
      in if user_input = [] then Inr (\<lparr>status = 400, body = Error_body ''Input is empty''\<rparr>, db)
         else and_then (check_rate_limit e db (req_user req)) (\<lambda>refusal.
                case refusal of
                  Some (limit, used) \<Rightarrow> Inr (\<lparr>status = 429, body = Limit_body limit used\<rparr>, db)
                | None \<Rightarrow> enhance e db (req_user req) user_input ptype cplx))"

section \<open>Notions used in the statements\<close>


text \<open>The advisory strings in the order in which \<^verbatim>\<open>generate_recommendations\<close> tests them.\<close>

definition advice_priority :: "string list" where
  "advice_priority = [advice_specificity, advice_structure, advice_constraints,
                      advice_examples, advice_visual, advice_temporal]"

text \<open>A model that answers every input with the same text, and one that always raises.\<close>

definition constant_model :: "string \<Rightarrow> string \<Rightarrow> py_error + string" where
  "constant_model answer x = Inr answer"

definition failing_model :: "string \<Rightarrow> string \<Rightarrow> py_error + string" where
  "failing_model msg x = Inl (GenerationError msg)"



text \<open>The entry the type-specific check appends, with \<open>v\<close> for its flag.\<close>

definition extra_indicator :: "string \<Rightarrow> bool \<Rightarrow> bool dict" where
  "extra_indicator t v =
     (if t = ''image'' then [(''visual_elements'', v)]
      else if t = ''video'' then [(''temporal_elements'', v)]
      else if t = ''code'' then [(''technical_specs'', v)] else [])"

section \<open>Properties of the scorer and of the fallback prompt\<close>

lemma dict_item_Cons [simp]:
  "dict_item ((k, v) # d) k' = (if k = k' then Inr v else dict_item d k')"
  by (simp add: dict_item_def)

lemma dict_item_Nil [simp]: "dict_item [] k = Inl (KeyError k)"
  by (simp add: dict_item_def)

lemma and_then_Inr [simp]: "and_then (Inr v) f = f v"
  by (simp add: and_then_def)

lemma and_then_Inl [simp]: "and_then (Inl e) f = Inl e"
  by (simp add: and_then_def)

lemma gen_recs_shape:
  "generate_recommendations
     ([(''specificity'', a), (''structure'', b), (''constraints'', c), (''examples'', d),
       (''tone_appropriate'', e), (''has_objective'', f), (''appropriate_length'', g)] @
      extra_indicator t v) t =
   Inr ((if a then [] else [advice_specificity]) @
        (if b then [] else [advice_structure]) @
        (if c then [] else [advice_constraints]) @
        (if d then [] else if t \<in> {''text'', ''code'', ''data''} then [advice_examples] else []) @
        (if t = ''image'' then (if v then [] else [advice_visual]) else []) @
        (if t = ''video'' then (if v then [] else [advice_temporal]) else []))"
  by (simp add: generate_recommendations_def extra_indicator_def)

lemma quality_indicators_shape:
  "\<exists>a b c d e f g v.
     quality_indicators p t =
       [(''specificity'', a), (''structure'', b), (''constraints'', c), (''examples'', d),
        (''tone_appropriate'', e), (''has_objective'', f), (''appropriate_length'', g)] @
       extra_indicator t v \<and>
     f = (20 < length (py_split p) \<and>
          any_word_in [''objective'', ''goal'', ''purpose'', ''aim''] (py_lower p)) \<and>
     g = (50 \<le> length (py_split p) \<and> length (py_split p) \<le> 500)"
  by (simp add: quality_indicators_def base_indicators_def Let_def extra_indicator_def)

lemma round_half_even_near: "\<bar>of_int (round_half_even y) - y\<bar> \<le> 1 / 2"
proof -
  have "of_int \<lfloor>y\<rfloor> \<le> y" "y < of_int \<lfloor>y\<rfloor> + 1" by linarith+
  then show ?thesis
    unfolding round_half_even_def Let_def by (auto simp: abs_le_iff)
qed

lemma py_round1_near: "\<bar>py_round1 x - x\<bar> \<le> 1 / 20"
proof -
  have "\<bar>of_int (round_half_even (x * 10)) - x * 10\<bar> \<le> 1 / 2"
    by (rule round_half_even_near)
  then show ?thesis unfolding py_round1_def by (simp add: abs_le_iff field_simps)
qed






lemma blank_isspace [simp]: "py_isspace (CHR '' '')"
  by (simp add: py_isspace_def)



lemma analyze_shape:
  "\<exists>a b c d e f g v.
     quality_indicators p t =
       [(''specificity'', a), (''structure'', b), (''constraints'', c), (''examples'', d),
        (''tone_appropriate'', e), (''has_objective'', f), (''appropriate_length'', g)] @
       extra_indicator t v \<and>
     f = (20 < length (py_split p) \<and>
          any_word_in [''objective'', ''goal'', ''purpose'', ''aim''] (py_lower p)) \<and>
     g = (50 \<le> length (py_split p) \<and> length (py_split p) \<le> 500) \<and>
     analyze_prompt_quality p t =
       Inr \<lparr>quality_score = py_round1 (of_nat (length (filter snd (quality_indicators p t))) /
                                of_nat (length (quality_indicators p t)) * 100),
            indicators = quality_indicators p t,
            word_count = length (py_split p),
            recommendations =
              (if a then [] else [advice_specificity]) @
              (if b then [] else [advice_structure]) @
              (if c then [] else [advice_constraints]) @
              (if d then [] else if t \<in> {''text'', ''code'', ''data''} then [advice_examples] else []) @
              (if t = ''image'' then (if v then [] else [advice_visual]) else []) @
              (if t = ''video'' then (if v then [] else [advice_temporal]) else [])\<rparr>"
proof -
  obtain a b c d e f g v where
    shape: "quality_indicators p t =
       [(''specificity'', a), (''structure'', b), (''constraints'', c), (''examples'', d),
        (''tone_appropriate'', e), (''has_objective'', f), (''appropriate_length'', g)] @
       extra_indicator t v"
    and f: "f = (20 < length (py_split p) \<and>
          any_word_in [''objective'', ''goal'', ''purpose'', ''aim''] (py_lower p))"
    and g: "g = (50 \<le> length (py_split p) \<and> length (py_split p) \<le> 500)"
    using quality_indicators_shape [of p t] by blast
  have len: "length (quality_indicators p t) \<noteq> 0"
    by (simp add: shape)
  have "analyze_prompt_quality p t =
       Inr \<lparr>quality_score = py_round1 (of_nat (length (filter snd (quality_indicators p t))) /
                                of_nat (length (quality_indicators p t)) * 100),
            indicators = quality_indicators p t,
            word_count = length (py_split p),
            recommendations =
              (if a then [] else [advice_specificity]) @
              (if b then [] else [advice_structure]) @
              (if c then [] else [advice_constraints]) @
              (if d then [] else if t \<in> {''text'', ''code'', ''data''} then [advice_examples] else []) @
              (if t = ''image'' then (if v then [] else [advice_visual]) else []) @
              (if t = ''video'' then (if v then [] else [advice_temporal]) else [])\<rparr>"
    unfolding analyze_prompt_quality_def Let_def
    using len by (simp add: shape gen_recs_shape del: append.simps)
  with shape f g show ?thesis by blast
qed






text \<open>
  Claim C4 as stated fails: for the empty text of type \<^verbatim>\<open>text\<close> all seven indicators are
  false (none of them type-specific), but only four advisory strings are returned.
\<close>

theorem recommendations_counterexample:
  "analyze_prompt_quality [] ''text'' =
   Inr \<lparr>quality_score = 0,
        indicators = [(''specificity'', False), (''structure'', False), (''constraints'', False),
                      (''examples'', False), (''tone_appropriate'', False), (''has_objective'', False),
                      (''appropriate_length'', False)],
        word_count = 0,
        recommendations = [''Add more specific details and concrete requirements'',
                           ''Consider adding a clear structure or format specification'',
                           ''Define constraints or limitations to guide the AI'',
                           ''Include examples to clarify expected output'']\<rparr>"
  by code_simp

lemma distinct_advice_priority: "distinct advice_priority"
  by (simp add: advice_priority_def advice_specificity_def advice_structure_def
      advice_constraints_def advice_examples_def advice_visual_def advice_temporal_def)

lemma gen_recs_map_of:
  "map_of d1 = map_of d2 \<Longrightarrow> generate_recommendations d1 t = generate_recommendations d2 t"
  by (simp add: generate_recommendations_def dict_item_def)

lemma recs_subseq:
  "subseq ((if a then [] else [advice_specificity]) @
           (if b then [] else [advice_structure]) @
           (if c then [] else [advice_constraints]) @
           (if d then [] else if ex then [advice_examples] else []) @
           (if im then (if v then [] else [advice_visual]) else []) @
           (if vi then (if v then [] else [advice_temporal]) else [])) advice_priority"
proof -
  have "subseq ((if a then [] else [advice_specificity]) @
           (if b then [] else [advice_structure]) @
           (if c then [] else [advice_constraints]) @
           (if d then [] else if ex then [advice_examples] else []) @
           (if im then (if v then [] else [advice_visual]) else []) @
           (if vi then (if v then [] else [advice_temporal]) else []))
          ([advice_specificity] @ [advice_structure] @ [advice_constraints] @
           [advice_examples] @ [advice_visual] @ [advice_temporal])"
    by (intro list_emb_append_mono) simp_all
  then show ?thesis by (simp add: advice_priority_def)
qed

lemma recs_member:
  "set ((if a then [] else [advice_specificity]) @
           (if b then [] else [advice_structure]) @
           (if c then [] else [advice_constraints]) @
           (if d then [] else if ex then [advice_examples] else []) @
           (if im then (if v then [] else [advice_visual]) else []) @
           (if vi then (if v then [] else [advice_temporal]) else [])) =
   {x. (x = advice_specificity \<and> \<not> a) \<or> (x = advice_structure \<and> \<not> b) \<or>
       (x = advice_constraints \<and> \<not> c) \<or> (x = advice_examples \<and> \<not> d \<and> ex) \<or>
       (x = advice_visual \<and> im \<and> \<not> v) \<or> (x = advice_temporal \<and> vi \<and> \<not> v)}"
  by auto

text \<open>
  Claim C4, amended. The recommendations are a sublist of the fixed priority list (so
  each advisory occurs at most once and in that order). The advisories for
  \<^verbatim>\<open>specificity\<close>, \<^verbatim>\<open>structure\<close> and \<^verbatim>\<open>constraints\<close> are present exactly when the
  indicator is false; the one for \<^verbatim>\<open>examples\<close> only when moreover the type is text, code
  or data; the ones for \<^verbatim>\<open>visual_elements\<close> and \<^verbatim>\<open>temporal_elements\<close> only for the types
  image and video. No other indicator (\<^verbatim>\<open>tone_appropriate\<close>, \<^verbatim>\<open>has_objective\<close>,
  \<^verbatim>\<open>appropriate_length\<close>, \<^verbatim>\<open>technical_specs\<close>) contributes anything. The result depends on
  the dictionary's content only, not on the order of its keys.
\<close>

theorem recommendations_rule_table:
  "\<exists>r. analyze_prompt_quality p t = Inr r \<and>
     subseq (recommendations r) advice_priority \<and>
     (advice_specificity \<in> set (recommendations r)) =
       (map_of (indicators r) ''specificity'' = Some False) \<and>
     (advice_structure \<in> set (recommendations r)) =
       (map_of (indicators r) ''structure'' = Some False) \<and>
     (advice_constraints \<in> set (recommendations r)) =
       (map_of (indicators r) ''constraints'' = Some False) \<and>
     (advice_examples \<in> set (recommendations r)) =
       (map_of (indicators r) ''examples'' = Some False \<and> t \<in> {''text'', ''code'', ''data''}) \<and>
     (advice_visual \<in> set (recommendations r)) =
       (map_of (indicators r) ''visual_elements'' = Some False \<and> t = ''image'') \<and>
     (advice_temporal \<in> set (recommendations r)) =
       (map_of (indicators r) ''temporal_elements'' = Some False \<and> t = ''video'') \<and>
     (\<forall>d. map_of d = map_of (indicators r) \<longrightarrow>
          generate_recommendations d t = Inr (recommendations r))"
proof -
  obtain a b c d e f g v where
    shape: "quality_indicators p t =
       [(''specificity'', a), (''structure'', b), (''constraints'', c), (''examples'', d),
        (''tone_appropriate'', e), (''has_objective'', f), (''appropriate_length'', g)] @
       extra_indicator t v"
    and r: "analyze_prompt_quality p t =
       Inr \<lparr>quality_score = py_round1 (of_nat (length (filter snd (quality_indicators p t))) /
                                of_nat (length (quality_indicators p t)) * 100),
            indicators = quality_indicators p t,
            word_count = length (py_split p),
            recommendations =
              (if a then [] else [advice_specificity]) @
              (if b then [] else [advice_structure]) @
              (if c then [] else [advice_constraints]) @
              (if d then [] else if t \<in> {''text'', ''code'', ''data''} then [advice_examples] else []) @
              (if t = ''image'' then (if v then [] else [advice_visual]) else []) @
              (if t = ''video'' then (if v then [] else [advice_temporal]) else [])\<rparr>"
    using analyze_shape [of p t] by blast
  let ?recs = "(if a then [] else [advice_specificity]) @
              (if b then [] else [advice_structure]) @
              (if c then [] else [advice_constraints]) @
              (if d then [] else if t \<in> {''text'', ''code'', ''data''} then [advice_examples] else []) @
              (if t = ''image'' then (if v then [] else [advice_visual]) else []) @
              (if t = ''video'' then (if v then [] else [advice_temporal]) else [])"
  have sub: "subseq ?recs advice_priority" by (rule recs_subseq)
  have mem: "set ?recs =
     {x. (x = advice_specificity \<and> \<not> a) \<or> (x = advice_structure \<and> \<not> b) \<or>
       (x = advice_constraints \<and> \<not> c) \<or>
       (x = advice_examples \<and> \<not> d \<and> t \<in> {''text'', ''code'', ''data''}) \<or>
       (x = advice_visual \<and> t = ''image'' \<and> \<not> v) \<or>
       (x = advice_temporal \<and> t = ''video'' \<and> \<not> v)}"
    by (rule recs_member)
  have lk: "map_of (quality_indicators p t) ''specificity'' = Some a"
    "map_of (quality_indicators p t) ''structure'' = Some b"
    "map_of (quality_indicators p t) ''constraints'' = Some c"
    "map_of (quality_indicators p t) ''examples'' = Some d"
    "map_of (quality_indicators p t) ''visual_elements'' = (if t = ''image'' then Some v else None)"
    "map_of (quality_indicators p t) ''temporal_elements'' = (if t = ''video'' then Some v else None)"
    by (simp_all add: shape extra_indicator_def)
  have gen: "generate_recommendations (quality_indicators p t) t = Inr ?recs"
    unfolding shape by (rule gen_recs_shape)
  have indep: "\<forall>d'. map_of d' = map_of (quality_indicators p t) \<longrightarrow>
      generate_recommendations d' t = Inr ?recs"
    using gen gen_recs_map_of by metis
  have m1: "(advice_specificity \<in> set ?recs) = (\<not> a)"
    and m2: "(advice_structure \<in> set ?recs) = (\<not> b)"
    and m3: "(advice_constraints \<in> set ?recs) = (\<not> c)"
    and m4: "(advice_examples \<in> set ?recs) = (\<not> d \<and> t \<in> {''text'', ''code'', ''data''})"
    and m5: "(advice_visual \<in> set ?recs) = (\<not> v \<and> t = ''image'')"
    and m6: "(advice_temporal \<in> set ?recs) = (\<not> v \<and> t = ''video'')"
    unfolding mem
    by (auto simp add: advice_specificity_def advice_structure_def
        advice_constraints_def advice_examples_def advice_visual_def advice_temporal_def)
  show ?thesis
    unfolding r using sub indep m1 m2 m3 m4 m5 m6 lk by simp
qed

lemma analyze_image_example:
  "analyze_prompt_quality ''A formal outline'' ''image'' =
   Inr \<lparr>quality_score = 25,
        indicators = [(''specificity'', False), (''structure'', True), (''constraints'', False),
                      (''examples'', False), (''tone_appropriate'', True), (''has_objective'', False),
                      (''appropriate_length'', False), (''visual_elements'', False)],
        word_count = 3,
        recommendations = [advice_specificity, advice_constraints, advice_visual]\<rparr>"
  by code_simp

theorem recommendations_rule_table_witness:
  "\<exists>r. analyze_prompt_quality ''A formal outline'' ''image'' = Inr r \<and>
       recommendations r = [advice_specificity, advice_constraints, advice_visual] \<and>
       subseq (recommendations r) advice_priority \<and>
       generate_recommendations (rev (indicators r)) ''image'' = Inr (recommendations r)"
proof -
  obtain r where r: "analyze_prompt_quality ''A formal outline'' ''image'' = Inr r"
    and sub: "subseq (recommendations r) advice_priority"
    and indep: "\<forall>d. map_of d = map_of (indicators r) \<longrightarrow>
          generate_recommendations d ''image'' = Inr (recommendations r)"
    using recommendations_rule_table [of "''A formal outline''" "''image''"]
    by (elim exE conjE) (rule that, assumption+)
  have val: "r = \<lparr>quality_score = 25,
        indicators = [(''specificity'', False), (''structure'', True), (''constraints'', False),
                      (''examples'', False), (''tone_appropriate'', True), (''has_objective'', False),
                      (''appropriate_length'', False), (''visual_elements'', False)],
        word_count = 3,
        recommendations = [advice_specificity, advice_constraints, advice_visual]\<rparr>"
    using r by (simp add: analyze_image_example)
  have "map_of (rev (indicators r)) = map_of (indicators r)"
    unfolding val by (rule ext) simp
  with indep have "generate_recommendations (rev (indicators r)) ''image'' = Inr (recommendations r)"
    by blast
  with r sub val show ?thesis by simp
qed




text \<open>
  Claim C9. For the empty text and every prompt type the scorer returns a report (it
  does not raise): the word count is 0, every indicator is false, and the score is 0.
\<close>

theorem empty_text_report:
  "\<exists>r. analyze_prompt_quality [] t = Inr r \<and> word_count r = 0 \<and>
       (\<forall>kv \<in> set (indicators r). \<not> snd kv) \<and> quality_score r = 0"
proof -
  have low: "py_lower [] = []" by (simp add: py_lower_def)
  have ind: "quality_indicators [] t =
       [(''specificity'', False), (''structure'', False), (''constraints'', False),
        (''examples'', False), (''tone_appropriate'', False), (''has_objective'', False),
        (''appropriate_length'', False)] @ extra_indicator t False"
    by (simp add: quality_indicators_def base_indicators_def Let_def extra_indicator_def
        low py_split_def any_word_in_def)
  obtain recs where r: "analyze_prompt_quality [] t =
         Inr \<lparr>quality_score = py_round1 (of_nat (length (filter snd (quality_indicators [] t))) /
                                  of_nat (length (quality_indicators [] t)) * 100),
              indicators = quality_indicators [] t,
              word_count = length (py_split []),
              recommendations = recs\<rparr>"
    using analyze_shape [of "[]" t] by blast
  have none: "filter snd (quality_indicators [] t) = []"
    by (simp add: ind extra_indicator_def)
  have zero: "py_round1 0 = 0"
    by (simp add: py_round1_def round_half_even_def)
  have all: "\<forall>kv \<in> set (quality_indicators [] t). \<not> snd kv"
    by (simp add: ind extra_indicator_def)
  show ?thesis unfolding r using none zero all by (simp add: py_split_def)
qed

theorem empty_text_report_witness:
  "\<exists>r. analyze_prompt_quality [] ''video'' = Inr r \<and> word_count r = 0 \<and>
       indicators r = [(''specificity'', False), (''structure'', False), (''constraints'', False),
        (''examples'', False), (''tone_appropriate'', False), (''has_objective'', False),
        (''appropriate_length'', False), (''temporal_elements'', False)] \<and>
       quality_score r = 0 \<and>
       recommendations r = [advice_specificity, advice_structure, advice_constraints, advice_temporal]"
proof -
  have ev: "analyze_prompt_quality [] ''video'' =
    Inr \<lparr>quality_score = 0,
        indicators = [(''specificity'', False), (''structure'', False), (''constraints'', False),
        (''examples'', False), (''tone_appropriate'', False), (''has_objective'', False),
        (''appropriate_length'', False), (''temporal_elements'', False)],
        word_count = 0,
        recommendations = [advice_specificity, advice_structure, advice_constraints, advice_temporal]\<rparr>"
    by code_simp
  with empty_text_report [of "''video''"] show ?thesis by simp
qed



section \<open>The counter and the handler\<close>

lemma distinct_digits: "distinct ''0123456789''" by simp

lemma digit_inj: "digit a = digit b \<Longrightarrow> a mod 10 = b mod 10"
proof -
  assume eq: "digit a = digit b"
  have la: "a mod 10 < length ''0123456789''" by simp
  have lb: "b mod 10 < length ''0123456789''" by simp
  from eq have "''0123456789'' ! (a mod 10) = ''0123456789'' ! (b mod 10)"
    by (simp only: digit_def)
  then show "a mod 10 = b mod 10"
    using nth_eq_iff_index_eq [OF distinct_digits la lb] by blast
qed


lemma tens_units_eq: "(x::nat) div 10 = y div 10 \<Longrightarrow> x mod 10 = y mod 10 \<Longrightarrow> x = y"
  by (metis div_mult_mod_eq)

lemma zero_pad2_inj:
  assumes "zero_pad2 a = zero_pad2 b" "a < 100" "b < 100"
  shows "a = b"
proof -
  from assms(1) have d: "digit (a div 10) = digit (b div 10)" "digit a = digit b"
    by (simp_all add: zero_pad2_def)
  have "(a div 10) mod 10 = (b div 10) mod 10" by (rule digit_inj [OF d(1)])
  moreover from assms(2,3) have "a div 10 < 10" "b div 10 < 10" by simp_all
  ultimately have "a div 10 = b div 10" by simp
  moreover have "a mod 10 = b mod 10" by (rule digit_inj [OF d(2)])
  ultimately show ?thesis by (rule tens_units_eq)
qed

lemma zero_pad4_inj:
  assumes "zero_pad4 a = zero_pad4 b" "a < 10000" "b < 10000"
  shows "a = b"
proof -
  from assms(1) have d: "digit (a div 1000) = digit (b div 1000)"
    "digit (a div 100) = digit (b div 100)"
    "digit (a div 10) = digit (b div 10)" "digit a = digit b"
    by (simp_all add: zero_pad4_def)
  have "(a div 1000) mod 10 = (b div 1000) mod 10" by (rule digit_inj [OF d(1)])
  moreover from assms(2,3) have "a div 1000 < 10" "b div 1000 < 10" by simp_all
  ultimately have "a div 1000 = b div 1000" by simp
  then have "(a div 100) div 10 = (b div 100) div 10" by (simp add: div_mult2_eq [symmetric])
  moreover have "(a div 100) mod 10 = (b div 100) mod 10" by (rule digit_inj [OF d(2)])
  ultimately have "a div 100 = b div 100" by (rule tens_units_eq)
  then have "(a div 10) div 10 = (b div 10) div 10" by (simp add: div_mult2_eq [symmetric])
  moreover have "(a div 10) mod 10 = (b div 10) mod 10" by (rule digit_inj [OF d(3)])
  ultimately have "a div 10 = b div 10" by (rule tens_units_eq)
  moreover have "a mod 10 = b mod 10" by (rule digit_inj [OF d(4)])
  ultimately show ?thesis by (rule tens_units_eq)
qed

lemma isoformat_inj:
  assumes "valid_date a" "valid_date b" "isoformat a = isoformat b"
  shows "a = b"
proof -
  from assms(3) have "zero_pad4 (year a) = zero_pad4 (year b)"
    "zero_pad2 (month a) = zero_pad2 (month b)" "zero_pad2 (day a) = zero_pad2 (day b)"
    by (simp_all add: isoformat_def zero_pad4_def zero_pad2_def)
  moreover from assms(1,2) have "year a < 10000" "year b < 10000" "month a < 100" "month b < 100"
    "day a < 100" "day b < 100"
    by (simp_all add: valid_date_def)
  ultimately have "year a = year b" "month a = month b" "day a = day b"
    by (simp_all add: zero_pad4_inj zero_pad2_inj)
  then show ?thesis by simp
qed

lemma date_less_neq: "date_less a b \<Longrightarrow> a \<noteq> b"
  by (auto simp add: date_less_def)


text \<open>
  Claim C8. Resetting the daily count twice for the same day is the same as resetting it
  once. Whenever the stored \<^verbatim>\<open>last_reset_date\<close> is not today's date, in particular when
  it is the ISO text of a valid date one or more days before today, the reset leaves
  \<^verbatim>\<open>prompts_today\<close> at 0 and \<^verbatim>\<open>last_reset_date\<close> at today, however far the dates are
  apart.
\<close>

theorem rollover_idempotent:
  "reset_if_new_day today (reset_if_new_day today d) = reset_if_new_day today d \<and>
   (d ''last_reset_date'' \<noteq> Some (StrV today) \<longrightarrow>
      reset_if_new_day today d ''prompts_today'' = Some (IntV 0) \<and>
      reset_if_new_day today d ''last_reset_date'' = Some (StrV today)) \<and>
   (d ''last_reset_date'' = Some (StrV (isoformat d0)) \<and> valid_date d0 \<and> valid_date d1 \<and>
    date_less d0 d1 \<longrightarrow>
      reset_if_new_day (isoformat d1) d ''prompts_today'' = Some (IntV 0) \<and>
      reset_if_new_day (isoformat d1) d ''last_reset_date'' = Some (StrV (isoformat d1)))"
proof (intro conjI impI)
  show "reset_if_new_day today (reset_if_new_day today d) = reset_if_new_day today d"
    by (simp add: reset_if_new_day_def)
next
  assume "d ''last_reset_date'' \<noteq> Some (StrV today)"
  then show "reset_if_new_day today d ''prompts_today'' = Some (IntV 0)"
    and "reset_if_new_day today d ''last_reset_date'' = Some (StrV today)"
    by (simp_all add: reset_if_new_day_def)
next
  assume a: "d ''last_reset_date'' = Some (StrV (isoformat d0)) \<and> valid_date d0 \<and> valid_date d1 \<and>
    date_less d0 d1"
  then have "d0 \<noteq> d1" by (simp add: date_less_neq)
  with a have "isoformat d0 \<noteq> isoformat d1"
    using isoformat_inj [of d0 d1] by blast
  with a have ne: "d ''last_reset_date'' \<noteq> Some (StrV (isoformat d1))" by simp
  then show "reset_if_new_day (isoformat d1) d ''prompts_today'' = Some (IntV 0)"
    and "reset_if_new_day (isoformat d1) d ''last_reset_date'' = Some (StrV (isoformat d1))"
    by (simp_all add: reset_if_new_day_def)
qed

lemma isoformat_examples:
  "isoformat \<lparr>year = 2024, month = 2, day = 10\<rparr> = ''2024-02-10''"
  "isoformat \<lparr>year = 2024, month = 3, day = 15\<rparr> = ''2024-03-15''"
  "isoformat \<lparr>year = 2024, month = 3, day = 14\<rparr> = ''2024-03-14''"
  by (simp_all add: isoformat_def zero_pad4_def zero_pad2_def digit_def)

theorem rollover_idempotent_witness:
  "reset_if_new_day ''2024-03-15''
     [''prompts_today'' \<mapsto> IntV 100, ''last_reset_date'' \<mapsto> StrV ''2024-02-10''] ''prompts_today'' =
     Some (IntV 0) \<and>
   reset_if_new_day ''2024-03-15''
     (reset_if_new_day ''2024-03-15''
        [''prompts_today'' \<mapsto> IntV 100, ''last_reset_date'' \<mapsto> StrV ''2024-02-10'']) =
   reset_if_new_day ''2024-03-15''
     [''prompts_today'' \<mapsto> IntV 100, ''last_reset_date'' \<mapsto> StrV ''2024-02-10'']"
proof -
  let ?doc = "[''prompts_today'' \<mapsto> IntV 100, ''last_reset_date'' \<mapsto> StrV ''2024-02-10'']"
  let ?before = "\<lparr>year = 2024, month = 2, day = 10\<rparr>"
  let ?after = "\<lparr>year = 2024, month = 3, day = 15\<rparr>"
  have h: "?doc ''last_reset_date'' = Some (StrV (isoformat ?before)) \<and> valid_date ?before \<and>
           valid_date ?after \<and> date_less ?before ?after"
    by (simp add: isoformat_examples valid_date_def date_less_def)
  from rollover_idempotent [of "''2024-03-15''" ?doc ?before ?after] h
  show ?thesis by (simp add: isoformat_examples)
qed


lemma check_rate_limit_reached:
  assumes "firebase_initialized e" "store_reachable e" "users db uid = Some d"
    "d ''daily_limit'' = Some (IntV lmt)" "d ''prompts_today'' = Some (IntV c)" "lmt \<le> c"
  shows "check_rate_limit e db (Some uid) = Inr (Some (IntV lmt, IntV c))"
  using assms by (simp add: check_rate_limit_def users_get_def get_default_def)

lemma generate_refused:
  assumes "check_rate_limit e db (req_user req) = Inr (Some (lmt, used))" "user_input_of req \<noteq> []"
  shows "generate e db req = Inr (\<lparr>status = 429, body = Limit_body lmt used\<rparr>, db)"
  using assms by (simp add: generate_def Let_def)

lemma generate_admitted:
  assumes "check_rate_limit e db (req_user req) = Inr None" "user_input_of req \<noteq> []"
  shows "generate e db req =
         enhance e db (req_user req) (user_input_of req) (prompt_type_of req) (complexity_of req)"
  using assms by (simp add: generate_def Let_def)

lemma user_input_a_logo:
  "user_input_of \<lparr>req_user = u, req_prompt = Some ''a logo'', req_type = ty, req_complexity = cx\<rparr> = ''a logo''"
  by (simp add: user_input_of_def py_strip_def py_isspace_def)

text \<open>A user whose stored count has reached the stored limit is refused whatever the
  clock and the stored \<^verbatim>\<open>last_reset_date\<close> say, and the refusal changes nothing in the
  store.\<close>

lemma limit_reached_any_day:
  assumes "firebase_initialized e" "store_reachable e" "users db uid = Some d"
    and "d ''daily_limit'' = Some (IntV lmt)" "d ''prompts_today'' = Some (IntV c)" "lmt \<le> c"
    and "req_user req = Some uid" "user_input_of req \<noteq> []"
  shows "generate e db req = Inr (\<lparr>status = 429, body = Limit_body (IntV lmt) (IntV c)\<rparr>, db)"
proof -
  have "check_rate_limit e db (req_user req) = Inr (Some (IntV lmt, IntV c))"
    using check_rate_limit_reached [OF assms(1-6)] assms(7) by simp
  then show ?thesis using assms(8) by (rule generate_refused)
qed

text \<open>
  Claim C2 against the code. The handler compares the stored \<^verbatim>\<open>prompts_today\<close> with the
  limit as it finds them; it does not look at \<^verbatim>\<open>last_reset_date\<close>. On 2024-03-15 a user
  whose counter was last reset on 2024-03-14 and stands at the limit 100 is refused with
  status 429 and \<open>used = 100\<close>, and the store stays as it was.
\<close>

theorem check_without_rollover:
  "isoformat (date \<lparr>date = \<lparr>year = 2024, month = 3, day = 15\<rparr>, time_of_day = 0\<rparr>) = ''2024-03-15'' \<and>
   generate
     \<lparr>firebase_initialized = True, store_reachable = True,
      now = \<lparr>date = \<lparr>year = 2024, month = 3, day = 15\<rparr>, time_of_day = 0\<rparr>,
      model_generate_content = constant_model ''An enhanced prompt''\<rparr>
     \<lparr>users = [''u1'' \<mapsto> [''daily_limit'' \<mapsto> IntV 100, ''prompts_today'' \<mapsto> IntV 100,
                          ''last_reset_date'' \<mapsto> StrV ''2024-03-14'']],
      prompts = []\<rparr>
     \<lparr>req_user = Some ''u1'', req_prompt = Some ''a logo'', req_type = None,
      req_complexity = None\<rparr> =
   Inr (\<lparr>status = 429, body = Limit_body (IntV 100) (IntV 100)\<rparr>,
        \<lparr>users = [''u1'' \<mapsto> [''daily_limit'' \<mapsto> IntV 100, ''prompts_today'' \<mapsto> IntV 100,
                          ''last_reset_date'' \<mapsto> StrV ''2024-03-14'']],
      prompts = []\<rparr>)"
proof -
  have "check_rate_limit
     \<lparr>firebase_initialized = True, store_reachable = True,
      now = \<lparr>date = \<lparr>year = 2024, month = 3, day = 15\<rparr>, time_of_day = 0\<rparr>,
      model_generate_content = constant_model ''An enhanced prompt''\<rparr>
     \<lparr>users = [''u1'' \<mapsto> [''daily_limit'' \<mapsto> IntV 100, ''prompts_today'' \<mapsto> IntV 100,
                          ''last_reset_date'' \<mapsto> StrV ''2024-03-14'']],
      prompts = []\<rparr> (Some ''u1'') = Inr (Some (IntV 100, IntV 100))"
    by (rule check_rate_limit_reached
          [where d = "[''daily_limit'' \<mapsto> IntV 100, ''prompts_today'' \<mapsto> IntV 100,
                      ''last_reset_date'' \<mapsto> StrV ''2024-03-14'']"]) simp_all
  then show ?thesis
    by (simp add: generate_refused user_input_a_logo isoformat_examples)
qed


lemma prompt_type_default:
  "prompt_type_of \<lparr>req_user = u, req_prompt = p, req_type = None, req_complexity = cx\<rparr> = ''text''"
  by (simp add: prompt_type_of_def py_lower_def lower_char_def ascii_uppercase_def ascii_lowercase_def)

lemma complexity_default:
  "complexity_of \<lparr>req_user = u, req_prompt = p, req_type = ty, req_complexity = None\<rparr> = ''detailed''"
  by (simp add: complexity_of_def)

text \<open>
  Claim C3 as stated fails when the client is initialised and the store does not answer:
  the read raises before the handler's \<^verbatim>\<open>try\<close>, and the exception leaves the handler;
  the request does not proceed to the model.
\<close>

theorem rate_check_outage_counterexample:
  "generate
     \<lparr>firebase_initialized = True, store_reachable = False,
      now = \<lparr>date = \<lparr>year = 2024, month = 3, day = 15\<rparr>, time_of_day = 0\<rparr>,
      model_generate_content = constant_model ''An enhanced prompt''\<rparr>
     \<lparr>users = [''u1'' \<mapsto> [''daily_limit'' \<mapsto> IntV 100, ''prompts_today'' \<mapsto> IntV 5,
                          ''last_reset_date'' \<mapsto> StrV ''2024-03-15'']],
      prompts = []\<rparr>
     \<lparr>req_user = Some ''u1'', req_prompt = Some ''a logo'', req_type = None,
      req_complexity = None\<rparr> =
   Inl ServiceUnavailable"
  by (simp add: generate_def Let_def user_input_a_logo check_rate_limit_def users_get_def)

text \<open>
  Claim C3, amended. When the Firebase client was not initialised, or the store answers
  and holds no document for the user, the rate check refuses nothing, and a request with
  a non-empty prompt proceeds to the generation.
\<close>

theorem rate_check_fail_open:
  assumes "\<not> firebase_initialized e \<or> (store_reachable e \<and> users db uid = None)"
  shows "check_rate_limit e db (Some uid) = Inr None \<and>
         (req_user req = Some uid \<and> user_input_of req \<noteq> [] \<longrightarrow>
            generate e db req =
              enhance e db (Some uid) (user_input_of req) (prompt_type_of req) (complexity_of req))"
proof -
  from assms have c: "check_rate_limit e db (Some uid) = Inr None"
    by (auto simp add: check_rate_limit_def users_get_def)
  show ?thesis
  proof (intro conjI impI)
    show "check_rate_limit e db (Some uid) = Inr None" by (rule c)
  next
    assume a: "req_user req = Some uid \<and> user_input_of req \<noteq> []"
    with c have "check_rate_limit e db (req_user req) = Inr None" by simp
    with a show "generate e db req =
              enhance e db (Some uid) (user_input_of req) (prompt_type_of req) (complexity_of req)"
      using generate_admitted [of e db req] by simp
  qed
qed

theorem rate_check_fail_open_witness:
  "check_rate_limit
     \<lparr>firebase_initialized = False, store_reachable = False,
      now = \<lparr>date = \<lparr>year = 2024, month = 3, day = 15\<rparr>, time_of_day = 0\<rparr>,
      model_generate_content = constant_model ''An enhanced prompt''\<rparr>
     \<lparr>users = Map.empty, prompts = []\<rparr> (Some ''u1'') = Inr None \<and>
   generate
     \<lparr>firebase_initialized = False, store_reachable = False,
      now = \<lparr>date = \<lparr>year = 2024, month = 3, day = 15\<rparr>, time_of_day = 0\<rparr>,
      model_generate_content = constant_model ''An enhanced prompt''\<rparr>
     \<lparr>users = Map.empty, prompts = []\<rparr>
     \<lparr>req_user = Some ''u1'', req_prompt = Some ''a logo'', req_type = None,
      req_complexity = None\<rparr> =
   enhance
     \<lparr>firebase_initialized = False, store_reachable = False,
      now = \<lparr>date = \<lparr>year = 2024, month = 3, day = 15\<rparr>, time_of_day = 0\<rparr>,
      model_generate_content = constant_model ''An enhanced prompt''\<rparr>
     \<lparr>users = Map.empty, prompts = []\<rparr> (Some ''u1'') ''a logo'' ''text'' ''detailed''"
  using rate_check_fail_open
     [of "\<lparr>firebase_initialized = False, store_reachable = False,
      now = \<lparr>date = \<lparr>year = 2024, month = 3, day = 15\<rparr>, time_of_day = 0\<rparr>,
      model_generate_content = constant_model ''An enhanced prompt''\<rparr>"
      "\<lparr>users = Map.empty, prompts = []\<rparr>" "''u1''"
      "\<lparr>req_user = Some ''u1'', req_prompt = Some ''a logo'', req_type = None,
      req_complexity = None\<rparr>"]
  by (simp add: user_input_a_logo prompt_type_default complexity_default)

lemma fallback_returns: "\<exists>fallback. generate_fallback_prompt u t = Inr fallback"
  by (simp add: generate_fallback_prompt_def dict_item_def templates_def)

lemma enhance_failure:
  assumes "model_generate_content e (full_input u t cx) = Inl err"
  shows "\<exists>fallback. generate_fallback_prompt u t = Inr fallback \<and>
           enhance e db usr u t cx = Inr (\<lparr>status = 500, body = Fallback_body err fallback\<rparr>, db)"
proof -
  obtain fallback where "generate_fallback_prompt u t = Inr fallback"
    using fallback_returns by blast
  with assms show ?thesis by (simp add: enhance_def)
qed

text \<open>
  Claim C5, amended. For every request that reaches the model (non-empty prompt, not
  refused by the rate check) and whose call of the model raises, the handler answers
  with status 500, the exception and the fallback prompt of the prompt type, and leaves
  the store unchanged: no prompt is saved and no counter is incremented.
\<close>

theorem generation_failure_fallback:
  assumes "user_input_of req \<noteq> []"
    and "check_rate_limit e db (req_user req) = Inr None"
    and "model_generate_content e
           (full_input (user_input_of req) (prompt_type_of req) (complexity_of req)) = Inl err"
  shows "\<exists>fallback.
           generate_fallback_prompt (user_input_of req) (prompt_type_of req) = Inr fallback \<and>
           generate e db req = Inr (\<lparr>status = 500, body = Fallback_body err fallback\<rparr>, db)"
proof -
  from assms(2,1) have "generate e db req =
      enhance e db (req_user req) (user_input_of req) (prompt_type_of req) (complexity_of req)"
    by (rule generate_admitted)
  with enhance_failure [OF assms(3)] show ?thesis by simp
qed


text \<open>
  Claim C5 as stated fails in one point: when the model raises, the answer carries the
  exception and the fallback prompt, but its status is 500, not a success status.
\<close>

theorem generation_failure_counterexample:
  "generate
     \<lparr>firebase_initialized = True, store_reachable = True,
      now = \<lparr>date = \<lparr>year = 2024, month = 3, day = 15\<rparr>, time_of_day = 0\<rparr>,
      model_generate_content = failing_model ''model unavailable''\<rparr>
     \<lparr>users = Map.empty, prompts = []\<rparr>
     \<lparr>req_user = None, req_prompt = Some ''a logo'', req_type = Some ''Image'',
      req_complexity = None\<rparr> =
   Inr (\<lparr>status = 500,
         body = Fallback_body (GenerationError ''model unavailable'')
           ''Professional IMAGE Prompt for: a logo\<newline>\<newline>SUBJECT: Main focus of the image\<newline>ACTION: What's happening\<newline>ENVIRONMENT: Where it takes place\<newline>STYLE: Artistic approach\<newline>LIGHTING: Lighting conditions\<newline>COMPOSITION: Framing and angle\<newline>MOOD: Emotional atmosphere\<newline>TECHNICAL: Resolution and quality''\<rparr>,
        \<lparr>users = Map.empty, prompts = []\<rparr>)"
proof -
  have ty: "prompt_type_of \<lparr>req_user = None, req_prompt = Some ''a logo'', req_type = Some ''Image'',
      req_complexity = None\<rparr> = ''image''"
    by (simp add: prompt_type_of_def py_lower_def lower_char_def ascii_uppercase_def
        ascii_lowercase_def)
  have up: "py_upper ''image'' = ''IMAGE''"
    by (simp add: py_upper_def upper_char_def ascii_uppercase_def ascii_lowercase_def)
  have fb: "generate_fallback_prompt ''a logo'' ''image'' =
     Inr ''Professional IMAGE Prompt for: a logo\<newline>\<newline>SUBJECT: Main focus of the image\<newline>ACTION: What's happening\<newline>ENVIRONMENT: Where it takes place\<newline>STYLE: Artistic approach\<newline>LIGHTING: Lighting conditions\<newline>COMPOSITION: Framing and angle\<newline>MOOD: Emotional atmosphere\<newline>TECHNICAL: Resolution and quality''"
    by (simp add: generate_fallback_prompt_def dict_item_def templates_def base_prompt_def up)
  show ?thesis
    by (simp add: generate_def Let_def user_input_a_logo ty complexity_default
        check_rate_limit_def enhance_def failing_model_def fb)
qed

theorem generation_failure_fallback_witness:
  "generate
     \<lparr>firebase_initialized = True, store_reachable = True,
      now = \<lparr>date = \<lparr>year = 2024, month = 3, day = 15\<rparr>, time_of_day = 0\<rparr>,
      model_generate_content = failing_model ''model unavailable''\<rparr>
     \<lparr>users = [''u1'' \<mapsto> [''daily_limit'' \<mapsto> IntV 100, ''prompts_today'' \<mapsto> IntV 5,
                          ''last_reset_date'' \<mapsto> StrV ''2024-03-15'']],
      prompts = []\<rparr>
     \<lparr>req_user = Some ''u1'', req_prompt = Some ''a logo'', req_type = None,
      req_complexity = None\<rparr> =
   Inr (\<lparr>status = 500,
         body = Fallback_body (GenerationError ''model unavailable'')
           ''Professional TEXT Prompt for: a logo\<newline>\<newline>OBJECTIVE: Clearly define the primary goal\<newline>CONTEXT: Provide necessary background\<newline>FORMAT: Specify output structure\<newline>KEY REQUIREMENTS: List essential elements\<newline>TONE: Define appropriate tone\<newline>CONSTRAINTS: Set clear limitations\<newline>EXPECTED OUTPUT: Describe what success looks like''\<rparr>,
        \<lparr>users = [''u1'' \<mapsto> [''daily_limit'' \<mapsto> IntV 100, ''prompts_today'' \<mapsto> IntV 5,
                          ''last_reset_date'' \<mapsto> StrV ''2024-03-15'']],
         prompts = []\<rparr>)"
proof -
  let ?e = "\<lparr>firebase_initialized = True, store_reachable = True,
      now = \<lparr>date = \<lparr>year = 2024, month = 3, day = 15\<rparr>, time_of_day = 0\<rparr>,
      model_generate_content = failing_model ''model unavailable''\<rparr>"
  let ?db = "\<lparr>users = [''u1'' \<mapsto> [''daily_limit'' \<mapsto> IntV 100, ''prompts_today'' \<mapsto> IntV 5,
                          ''last_reset_date'' \<mapsto> StrV ''2024-03-15'']],
      prompts = []\<rparr>"
  let ?req = "\<lparr>req_user = Some ''u1'', req_prompt = Some ''a logo'', req_type = None,
      req_complexity = None\<rparr>"
  have up: "py_upper ''text'' = ''TEXT''"
    by (simp add: py_upper_def upper_char_def ascii_uppercase_def ascii_lowercase_def)
  have fb: "generate_fallback_prompt ''a logo'' ''text'' =
     Inr ''Professional TEXT Prompt for: a logo\<newline>\<newline>OBJECTIVE: Clearly define the primary goal\<newline>CONTEXT: Provide necessary background\<newline>FORMAT: Specify output structure\<newline>KEY REQUIREMENTS: List essential elements\<newline>TONE: Define appropriate tone\<newline>CONSTRAINTS: Set clear limitations\<newline>EXPECTED OUTPUT: Describe what success looks like''"
    by (simp add: generate_fallback_prompt_def dict_item_def templates_def base_prompt_def up)
  have h1: "user_input_of ?req \<noteq> []" by (simp add: user_input_a_logo)
  have h2: "check_rate_limit ?e ?db (req_user ?req) = Inr None"
    by (simp add: check_rate_limit_def users_get_def get_default_def)
  have h3: "model_generate_content ?e
           (full_input (user_input_of ?req) (prompt_type_of ?req) (complexity_of ?req)) =
           Inl (GenerationError ''model unavailable'')"
    by (simp add: failing_model_def)
  from generation_failure_fallback [OF h1 h2 h3]
  show ?thesis
    by (simp add: user_input_a_logo prompt_type_default fb)
qed

section \<open>Concurrent updates of the counter\<close>




text \<open>The two steps of a call, taken without another call in between, are the
  uninterrupted function.\<close>

lemma one_call_atomic:
  "task_step e uid (task_step e uid (db, Before_read)) = (update_prompt_usage_stats e db uid, Done)"
  by (simp add: update_prompt_usage_stats_def and_then_def split: sum.splits)






end
